theory Spec2Isabelle
  imports Complex_Main
begin

section \<open>Order placement and stock reconciliation\<close>

text \<open>
  A shallow embedding of the order functions of the data layer (\<^verbatim>\<open>lib/supabase.ts\<close>:
  \<^verbatim>\<open>isValidUUID\<close>, \<^verbatim>\<open>ensureUUID\<close>, \<^verbatim>\<open>fetchCustomerById\<close>, \<^verbatim>\<open>fetchOrderById\<close>,
  \<^verbatim>\<open>createOrder\<close>, \<^verbatim>\<open>updateOrder\<close>, \<^verbatim>\<open>deleteOrder\<close>) and of the two order forms
  (\<^verbatim>\<open>pages/orders/OrderNew.tsx\<close>, \<^verbatim>\<open>pages/orders/OrderEdit.tsx\<close>).

  Conventions of the model:
  \<^item> the hosted database is an explicit state, a record of its tables; every function
    takes the state and returns the new one;
  \<^item> quantities and stock levels are integers (\<^typ>\<open>int\<close>); prices and totals are
    JavaScript numbers holding decimals and are modelled as exact rationals (\<^typ>\<open>rat\<close>):
    rounding and \<^verbatim>\<open>NaN\<close> are outside the model;
  \<^item> a JavaScript string that may be \<^verbatim>\<open>null\<close> is a \<^typ>\<open>string\<close> with the empty string
    for \<^verbatim>\<open>null\<close> (both are falsy, which is all the code tests);
  \<^item> everything the environment decides is an oracle of the record \<open>env\<close>, indexed by
    the call site (with the loop index where the call stands in a loop): whether a call
    to the store comes back with an error, which value \<^verbatim>\<open>uuidv4()\<close> or
    \<^verbatim>\<open>crypto.randomUUID()\<close> returns, and what \<^verbatim>\<open>new Date()\<close> reads. Constraint
    violations of the schema (primary and foreign keys), which are not visible in the
    sources, are among the errors the oracle may report;
  \<^item> a function of the source either returns a value, returns \<^verbatim>\<open>null\<close> after logging,
    or throws: the model returns \<open>Inr\<close> of the value or \<open>Inl\<close> of a \<open>failure\<close> that
    names the branch taken (with the values a thrown message carries); \<open>thrown\<close> tells
    the two failure channels apart.
\<close>

subsection \<open>Application types (\<^verbatim>\<open>lib/types\<close>, as used by the order functions)\<close>

record OrderItem =
  itemId :: string
  productId :: string
  productName :: string
  quantity :: int
  price :: rat

text \<open>\<^verbatim>\<open>Omit<Order, "id" | "createdAt">\<close>, the argument of \<^verbatim>\<open>createOrder\<close>.\<close>

record OrderData =
  customerId :: string
  customerName :: string
  employeeId :: string
  employeeName :: string
  items :: "OrderItem list"
  orderTotal :: rat

record Order = OrderData +
  orderId :: string
  status :: "string option"
  createdAt :: nat

text \<open>\<^verbatim>\<open>Partial<Order>\<close>, the argument of \<^verbatim>\<open>updateOrder\<close>: \<open>None\<close> is an absent field.\<close>

record PartialOrder =
  customerIdP :: "string option"
  customerNameP :: "string option"
  employeeIdP :: "string option"
  employeeNameP :: "string option"
  orderTotalP :: "rat option"
  itemsP :: "OrderItem list option"

record Customer =
  custId :: string
  custName :: string
  custEmail :: string
  custPhone :: string
  custAddress :: string
  custCreatedAt :: nat

subsection \<open>The store\<close>

text \<open>
  The rows of \<^verbatim>\<open>orders\<close>, \<^verbatim>\<open>order_items\<close> and \<^verbatim>\<open>customers\<close>, with the columns the
  functions read or write (the id of an order and of a customer is the key of its
  table below). \<^verbatim>\<open>createOrder\<close> inserts no \<^verbatim>\<open>status\<close>; the column is taken to have no
  default.
\<close>

record order_row =
  customer_id :: string
  customer_name :: string
  employee_id :: string
  employee_name :: string
  total_col :: rat
  created_at :: "nat option"
  status_col :: "string option"

record order_item_row =
  id_col :: string
  order_id :: string
  product_id :: string
  product_name :: string
  quantity_col :: int
  price_col :: rat

record customer_row =
  name_col :: string
  email_col :: string
  phone_col :: string
  address_col :: string
  cust_created_at :: "nat option"

text \<open>
  The tables, keyed by their \<^verbatim>\<open>id\<close> column. Of a product the order functions read and
  write the \<^verbatim>\<open>stock\<close> column only, so the table \<open>products\<close> maps a product id to its
  stock. The rows of \<^verbatim>\<open>order_items\<close> are kept in insertion order.
\<close>

record database =
  products :: "string \<rightharpoonup> int"
  orders :: "string \<rightharpoonup> order_row"
  order_items :: "order_item_row list"
  customers :: "string \<rightharpoonup> customer_row"

datatype site =
    ArgId | NewId | CreatedAtNow
  | CustomerIdArg | EmployeeIdArg | ItemIdArg nat | ProductIdArg nat
  | RetId | RetCustomerId | RetEmployeeId | RetItemId nat | RetProductId nat | RetCreatedAt
  | CheckStock nat | InsertOrder | InsertOrderItems | DeleteOrderAfterItems
  | DecreaseStock nat | DeleteOrderAfterStock nat | FetchCompleteOrder
  | FetchOriginalOrder | UpdateOrderRow
  | GetRemovedStock nat | UpdateRemovedStock nat
  | CheckIncrease nat | GetItemStock nat | UpdateItemStock nat
  | DeleteOldItems | InsertNewItems
  | CountOrder | SelectOrder | CountCustomer | SelectCustomer
  | UpdateCustomerRow | DeleteCustomerRow
  | DeleteItemsOfOrder | DeleteOrderRow

text \<open>
  The environment of one call of a function of the source, by call site: \<open>fails\<close> tells
  whether the call to the store made there comes back with an error, \<open>pg_code\<close> is the
  code of that error, \<open>uuidv4\<close> is the UUID that \<^verbatim>\<open>uuidv4()\<close> or
  \<^verbatim>\<open>crypto.randomUUID()\<close> returns there, \<open>now\<close> the time that \<^verbatim>\<open>new Date()\<close> reads
  there (in seconds). Two calls of a function have an environment each.
\<close>

record env =
  fails :: "site \<Rightarrow> bool"
  pg_code :: "site \<Rightarrow> string"
  uuidv4 :: "site \<Rightarrow> string"
  now :: "site \<Rightarrow> nat"

datatype failure =
    NotConfigured
  | CustomerIdRequired
  | InvalidUUIDFormat
  | ErrorCheckingCustomerExistence
  | NoCustomerFound
  | ErrorFetchingCustomer
  | ErrorUpdatingCustomer
  | OrderIdRequired
  | ErrorCheckingOrderExistence
  | NoOrderFound
  | ErrorFetchingOrder
  | FailedToCheckStock string
  | InsufficientStock string int int
  | ErrorCreatingOrder
  | ErrorCreatingOrderItems
  | FailedToUpdateStock string
  | ErrorFetchingCompleteOrder
  | ErrorFetchingOriginalOrder
  | ErrorUpdatingOrder
  | FailedToGetStock string
  | FailedToUpdateRemovedStock string
  | InsufficientAdditional string int int
  | FailedToUpdateOrderItems

text \<open>
  The failures the source throws (\<^verbatim>\<open>throw new Error(...)\<close>, rethrown by the enclosing
  \<^verbatim>\<open>catch\<close>); the others are logged and answered with \<^verbatim>\<open>null\<close>.
\<close>

fun thrown :: "failure \<Rightarrow> bool" where
  "thrown (FailedToCheckStock _) = True"
| "thrown (InsufficientStock _ _ _) = True"
| "thrown (FailedToUpdateStock _) = True"
| "thrown (FailedToGetStock _) = True"
| "thrown (FailedToUpdateRemovedStock _) = True"
| "thrown (InsufficientAdditional _ _ _) = True"
| "thrown FailedToUpdateOrderItems = True"
| "thrown _ = False"

text \<open>
  \<^verbatim>\<open>const isSupabaseConfigured = supabaseUrl && supabaseAnonKey\<close>: both operands are
  \<^verbatim>\<open>import.meta.env.X || "<non-empty literal>"\<close>, hence truthy.
\<close>

definition isSupabaseConfigured :: bool where
  "isSupabaseConfigured = True"

subsection \<open>JavaScript idioms\<close>

text \<open>\<^verbatim>\<open>x || d\<close> on a number (\<open>0\<close> is falsy) and on a string (the empty string is falsy).\<close>

definition num_or :: "'a::zero \<Rightarrow> 'a \<Rightarrow> 'a" where
  "num_or x d = (if x = 0 then d else x)"

definition str_or :: "string \<Rightarrow> string \<Rightarrow> string" where
  "str_or s d = (if s = [] then d else s)"

subsection \<open>\<^verbatim>\<open>isValidUUID\<close> and \<^verbatim>\<open>ensureUUID\<close>\<close>

text \<open>
  \<^verbatim>\<open>/^[0-9a-f]{8}-[0-9a-f]{4}-4[0-9a-f]{3}-[89ab][0-9a-f]{3}-[0-9a-f]{12}$/i\<close>
\<close>

definition isHexDigit :: "char \<Rightarrow> bool" where
  "isHexDigit c = (c \<in> set ''0123456789abcdefABCDEF'')"

definition isValidUUID :: "string \<Rightarrow> bool" where
  "isValidUUID u =
     (length u = 36
      \<and> list_all isHexDigit (take 8 u)
      \<and> take 1 (drop 8 u) = ''-''
      \<and> list_all isHexDigit (take 4 (drop 9 u))
      \<and> take 2 (drop 13 u) = ''-4''
      \<and> list_all isHexDigit (take 3 (drop 15 u))
      \<and> take 1 (drop 18 u) = ''-''
      \<and> list_all (\<lambda>c. c \<in> set ''89abAB'') (take 1 (drop 19 u))
      \<and> list_all isHexDigit (take 3 (drop 20 u))
      \<and> take 1 (drop 23 u) = ''-''
      \<and> list_all isHexDigit (drop 24 u))"

text \<open>
  \<^verbatim>\<open>ensureUUID\<close>: a valid id is returned as it is, any other string is replaced by a
  fresh \<^verbatim>\<open>uuidv4()\<close> (the \<^verbatim>\<open>catch\<close> branch returns one as well).
\<close>

definition ensureUUID :: "env \<Rightarrow> site \<Rightarrow> string \<Rightarrow> string" where
  "ensureUUID e s ident = (if isValidUUID ident then ident else uuidv4 e s)"

subsection \<open>Calls to the store\<close>

text \<open>
  \<^verbatim>\<open>from("products").select("stock").eq("id", pid).single()\<close>: \<open>None\<close> is an error
  (reported by the store, or because \<^verbatim>\<open>single()\<close> found no row).
\<close>

definition select_stock :: "env \<Rightarrow> site \<Rightarrow> database \<Rightarrow> string \<Rightarrow> int option" where
  "select_stock e s db pid = (if fails e s then None else products db pid)"

text \<open>\<^verbatim>\<open>from("products").update({ stock: newStock }).eq("id", pid)\<close>; \<open>None\<close> is an error.\<close>

definition update_stock :: "env \<Rightarrow> site \<Rightarrow> database \<Rightarrow> string \<Rightarrow> int \<Rightarrow> database option" where
  "update_stock e s db pid newStock =
     (if fails e s then None
      else if pid \<in> dom (products db)
           then Some (db\<lparr>products := (products db)(pid \<mapsto> newStock)\<rparr>)
           else Some db)"

text \<open>
  Modelled from the spec: the stored procedure \<^verbatim>\<open>decrease_stock(p_product_id, p_quantity)\<close>
  that \<^verbatim>\<open>createOrder\<close> calls through \<^verbatim>\<open>supabase.rpc\<close>; its SQL is not among the sources.
  Section 4.3 of the specification: the Stock Reconciler ``reads current stock, computes
  \<open>newStock = currentStock - delta\<close> [...] and writes it back''. A product that cannot be
  read is reported as an error.
\<close>

definition decrease_stock :: "env \<Rightarrow> site \<Rightarrow> database \<Rightarrow> string \<Rightarrow> int \<Rightarrow> database option" where
  "decrease_stock e s db pid q =
     (if fails e s then None
      else case products db pid of
             None \<Rightarrow> None
           | Some currentStock \<Rightarrow> Some (db\<lparr>products := (products db)(pid \<mapsto> currentStock - q)\<rparr>))"

text \<open>
  \<^verbatim>\<open>await supabase.from("orders").delete().eq("id", oid)\<close> where the source does not look
  at the result: on an error the row stays. Only the order row is deleted: whether the
  schema lets the delete cascade to \<^verbatim>\<open>order_items\<close> is not visible in the sources.
\<close>

definition delete_order_unchecked :: "env \<Rightarrow> site \<Rightarrow> database \<Rightarrow> string \<Rightarrow> database" where
  "delete_order_unchecked e s db oid =
     (if fails e s then db else db\<lparr>orders := (orders db)(oid := None)\<rparr>)"

text \<open>The rows of \<^verbatim>\<open>order_items\<close> embedded in an order by \<^verbatim>\<open>select("*, order_items (...)")\<close>.\<close>

definition items_of :: "database \<Rightarrow> string \<Rightarrow> order_item_row list" where
  "items_of db oid = filter (\<lambda>r. order_id r = oid) (order_items db)"

subsection \<open>\<^verbatim>\<open>createOrder\<close>\<close>

text \<open>
  The first loop: ``First validate stock availability for all items''. Every item is
  compared with the stock as it stands in the table; nothing is written.
  \<^verbatim>\<open>single()\<close> has answered with a row when there is no error, so the test
  \<^verbatim>\<open>!product\<close> is never true there, and \<^verbatim>\<open>product?.stock || 0\<close> is the stock.
\<close>

fun validateStock :: "env \<Rightarrow> database \<Rightarrow> nat \<Rightarrow> OrderItem list \<Rightarrow> failure option" where
  "validateStock e db i [] = None"
| "validateStock e db i (item # rest) =
     (case select_stock e (CheckStock i) db (productId item) of
        None \<Rightarrow> Some (FailedToCheckStock (productId item))
      | Some stock \<Rightarrow>
          if stock < quantity item
          then Some (InsufficientStock (productName item) (num_or stock 0) (quantity item))
          else validateStock e db (Suc i) rest)"

text \<open>The rows \<^verbatim>\<open>createOrder\<close> and \<^verbatim>\<open>updateOrder\<close> insert into \<^verbatim>\<open>order_items\<close>.\<close>

definition item_rows :: "env \<Rightarrow> string \<Rightarrow> OrderItem list \<Rightarrow> order_item_row list" where
  "item_rows e oid its =
     map (\<lambda>(i, item).
            \<lparr>id_col = str_or (itemId item) (uuidv4 e (ItemIdArg i)),
             order_id = oid,
             product_id = ensureUUID e (ProductIdArg i) (productId item),
             product_name = productName item,
             quantity_col = num_or (quantity item) 1,
             price_col = num_or (price item) 0\<rparr>)
         (enumerate 0 its)"

text \<open>
  The last loop: ``Update product stock levels''. When a call fails the order row is
  deleted (``Attempt to delete the order since stock update failed'') and the function
  throws; the stock already decreased stays decreased.
\<close>

fun updateStockLevels ::
  "env \<Rightarrow> string \<Rightarrow> database \<Rightarrow> nat \<Rightarrow> OrderItem list \<Rightarrow> failure option \<times> database" where
  "updateStockLevels e newId db i [] = (None, db)"
| "updateStockLevels e newId db i (item # rest) =
     (case decrease_stock e (DecreaseStock i) db (productId item) (quantity item) of
        None \<Rightarrow> (Some (FailedToUpdateStock (productName item)),
                 delete_order_unchecked e (DeleteOrderAfterStock i) db newId)
      | Some db' \<Rightarrow> updateStockLevels e newId db' (Suc i) rest)"

text \<open>``Convert snake_case back to camelCase for the response''.\<close>

definition toOrder :: "env \<Rightarrow> string \<Rightarrow> order_row \<Rightarrow> order_item_row list \<Rightarrow> Order" where
  "toOrder e oid row rows =
     \<lparr>customerId = ensureUUID e RetCustomerId (customer_id row),
      customerName = str_or (customer_name row) [],
      employeeId = ensureUUID e RetEmployeeId (employee_id row),
      employeeName = str_or (employee_name row) [],
      items = map (\<lambda>(i, r).
                     \<lparr>itemId = id_col r,
                      productId = ensureUUID e (RetProductId i) (product_id r),
                      productName = product_name r,
                      quantity = num_or (quantity_col r) 1,
                      price = num_or (price_col r) 0\<rparr>)
                  (enumerate 0 rows),
      orderTotal = num_or (total_col row) 0,
      orderId = ensureUUID e RetId oid,
      status = None,
      createdAt = (case created_at row of Some t \<Rightarrow> t | None \<Rightarrow> now e RetCreatedAt)\<rparr>"

text \<open>``Fetch the complete order with items'' (\<^verbatim>\<open>single()\<close>: no row is an error).\<close>

definition fetchCompleteOrder :: "env \<Rightarrow> database \<Rightarrow> string \<Rightarrow> (failure + Order) \<times> database" where
  "fetchCompleteOrder e db newId =
     (if fails e FetchCompleteOrder then (Inl ErrorFetchingCompleteOrder, db)
      else case orders db newId of
             None \<Rightarrow> (Inl ErrorFetchingCompleteOrder, db)
           | Some row \<Rightarrow> (Inr (toOrder e newId row (items_of db newId)), db))"

definition createOrder :: "env \<Rightarrow> database \<Rightarrow> OrderData \<Rightarrow> (failure + Order) \<times> database" where
  "createOrder e db order =
     (if \<not> isSupabaseConfigured then (Inl NotConfigured, db)
      else case validateStock e db 0 (items order) of
        Some f \<Rightarrow> (Inl f, db)
      | None \<Rightarrow>
          let newId = uuidv4 e NewId;
              orderData =
                \<lparr>customer_id = ensureUUID e CustomerIdArg (customerId order),
                 customer_name = customerName order,
                 employee_id = ensureUUID e EmployeeIdArg (employeeId order),
                 employee_name = employeeName order,
                 total_col = num_or (orderTotal order) 0,
                 created_at = Some (now e CreatedAtNow),
                 status_col = None\<rparr>
          in if fails e InsertOrder then (Inl ErrorCreatingOrder, db)
             else
               let db1 = db\<lparr>orders := (orders db)(newId \<mapsto> orderData)\<rparr>
               in if items order \<noteq> [] then
                    if fails e InsertOrderItems
                    then (Inl ErrorCreatingOrderItems,
                          delete_order_unchecked e DeleteOrderAfterItems db1 newId)
                    else
                      let db2 = db1\<lparr>order_items :=
                                       order_items db1 @ item_rows e newId (items order)\<rparr>
                      in case updateStockLevels e newId db2 0 (items order) of
                           (Some f, db3) \<Rightarrow> (Inl f, db3)
                         | (None, db3) \<Rightarrow> fetchCompleteOrder e db3 newId
                  else fetchCompleteOrder e db1 newId)"

subsection \<open>\<^verbatim>\<open>fetchOrderById\<close>\<close>

definition toFetchedOrder :: "env \<Rightarrow> string \<Rightarrow> order_row \<Rightarrow> order_item_row list \<Rightarrow> Order" where
  "toFetchedOrder e oid row rows =
     \<lparr>customerId = ensureUUID e RetCustomerId (customer_id row),
      customerName = str_or (customer_name row) [],
      employeeId = ensureUUID e RetEmployeeId (employee_id row),
      employeeName = str_or (employee_name row) [],
      items = map (\<lambda>(i, r).
                     \<lparr>itemId = str_or (id_col r) (uuidv4 e (RetItemId i)),
                      productId = ensureUUID e (RetProductId i) (product_id r),
                      productName = str_or (product_name r) ''Unknown Product'',
                      quantity = num_or (quantity_col r) 1,
                      price = num_or (price_col r) 0\<rparr>)
                  (enumerate 0 rows),
      orderTotal = num_or (total_col row) 0,
      orderId = ensureUUID e RetId oid,
      status = Some (case status_col row of None \<Rightarrow> ''pending'' | Some s \<Rightarrow> str_or s ''pending''),
      createdAt = (case created_at row of Some t \<Rightarrow> t | None \<Rightarrow> now e RetCreatedAt)\<rparr>"

text \<open>
  The function reads only. It first counts the rows with the id (``First check if the
  order exists''), then selects the order with its items (\<^verbatim>\<open>maybeSingle()\<close>); between
  the two reads nothing is written, so the second finds the row the first counted.
\<close>

definition fetchOrderById :: "env \<Rightarrow> database \<Rightarrow> string \<Rightarrow> failure + Order" where
  "fetchOrderById e db ident =
     (if \<not> isSupabaseConfigured then Inl NotConfigured
      else if ident = [] then Inl OrderIdRequired
      else
        let uuid = ensureUUID e ArgId ident
        in if fails e CountOrder then Inl ErrorCheckingOrderExistence
           else if orders db uuid = None then Inl NoOrderFound
           else if fails e SelectOrder then Inl ErrorFetchingOrder
           else case orders db uuid of
                  None \<Rightarrow> Inl NoOrderFound
                | Some row \<Rightarrow> Inr (toFetchedOrder e uuid row (items_of db uuid)))"

subsection \<open>\<^verbatim>\<open>updateOrder\<close>\<close>

text \<open>
  A JavaScript \<^verbatim>\<open>Map\<close> as the list of its entries in iteration order: \<^verbatim>\<open>set\<close> on a
  key that is present replaces the value where the key stands, on a new key appends.
  \<^verbatim>\<open>new Map(entries)\<close> sets the entries one after the other.
\<close>

fun Map_set :: "('k \<times> 'v) list \<Rightarrow> 'k \<Rightarrow> 'v \<Rightarrow> ('k \<times> 'v) list" where
  "Map_set [] k v = [(k, v)]"
| "Map_set ((k', v') # m) k v =
     (if k' = k then (k, v) # m else (k', v') # Map_set m k v)"

definition new_Map :: "('k \<times> 'v) list \<Rightarrow> ('k \<times> 'v) list" where
  "new_Map entries = foldl (\<lambda>m (k, v). Map_set m k v) [] entries"

definition Map_has :: "('k \<times> 'v) list \<Rightarrow> 'k \<Rightarrow> bool" where
  "Map_has m k = (map_of m k \<noteq> None)"

text \<open>\<^verbatim>\<open>type OrderItemMap = { quantity: number; id: string }\<close>\<close>

record OrderItemMap =
  mapQuantity :: int
  mapId :: string

definition originalItemsMap :: "order_item_row list \<Rightarrow> (string \<times> OrderItemMap) list" where
  "originalItemsMap rows =
     new_Map (map (\<lambda>r. (product_id r,
                          \<lparr>mapQuantity = num_or (quantity_col r) 0, mapId = id_col r\<rparr>)) rows)"

definition newItemsMap :: "OrderItem list \<Rightarrow> (string \<times> OrderItemMap) list" where
  "newItemsMap its =
     new_Map (map (\<lambda>item. (productId item,
                             \<lparr>mapQuantity = num_or (quantity item) 0, mapId = itemId item\<rparr>)) its)"

text \<open>
  The body of the loop ``Handle removed items - increase stock'', for one entry of
  \<^verbatim>\<open>originalItems\<close>: \<open>Inl\<close> is the error thrown, \<open>Inr\<close> the store after the entry.
\<close>

definition restoreRemovedItem ::
  "env \<Rightarrow> (string \<times> OrderItemMap) list \<Rightarrow> database \<Rightarrow> nat \<Rightarrow> string \<times> OrderItemMap
     \<Rightarrow> failure + database" where
  "restoreRemovedItem e newItems db j entry =
     (case entry of (pid, originalItem) \<Rightarrow>
        if \<not> Map_has newItems pid then
          case select_stock e (GetRemovedStock j) db pid of
            None \<Rightarrow> Inl (FailedToGetStock pid)
          | Some stock \<Rightarrow>
              let newStock = num_or stock 0 + mapQuantity originalItem
              in (case update_stock e (UpdateRemovedStock j) db pid newStock of
                    None \<Rightarrow> Inl (FailedToUpdateRemovedStock pid)
                  | Some db' \<Rightarrow> Inr db')
        else Inr db)"

fun restoreRemovedItems ::
  "env \<Rightarrow> (string \<times> OrderItemMap) list \<Rightarrow> database \<Rightarrow> nat \<Rightarrow> (string \<times> OrderItemMap) list
     \<Rightarrow> failure option \<times> database" where
  "restoreRemovedItems e newItems db j [] = (None, db)"
| "restoreRemovedItems e newItems db j (entry # rest) =
     (case restoreRemovedItem e newItems db j entry of
        Inl f \<Rightarrow> (Some f, db)
      | Inr db' \<Rightarrow> restoreRemovedItems e newItems db' (Suc j) rest)"

text \<open>\<^verbatim>\<open>quantityDiff\<close> of an item of the request against \<^verbatim>\<open>originalItems\<close>.\<close>

definition quantityDiff :: "(string \<times> OrderItemMap) list \<Rightarrow> OrderItem \<Rightarrow> int" where
  "quantityDiff originalItems item =
     (let originalQuantity = (case map_of originalItems (productId item) of
                                Some originalItem \<Rightarrow> mapQuantity originalItem
                              | None \<Rightarrow> 0);
          newQuantity = num_or (quantity item) 0
      in newQuantity - originalQuantity)"

text \<open>
  The body of the loop ``Handle new and modified items'', for one item: the stock check
  for an increase (``Need to check if we have enough stock for the increase''), then the
  read and the write of the new stock when the difference is not zero.
\<close>

definition checkIncrease ::
  "env \<Rightarrow> (string \<times> OrderItemMap) list \<Rightarrow> database \<Rightarrow> nat \<Rightarrow> OrderItem \<Rightarrow> failure option" where
  "checkIncrease e originalItems db i item =
     (let d = quantityDiff originalItems item
      in if d > 0 then
           case select_stock e (CheckIncrease i) db (productId item) of
             None \<Rightarrow> Some (FailedToCheckStock (productId item))
           | Some stock \<Rightarrow>
               if stock < d
               then Some (InsufficientAdditional (productName item) (num_or stock 0) d)
               else None
         else None)"

definition reconcileItem ::
  "env \<Rightarrow> (string \<times> OrderItemMap) list \<Rightarrow> database \<Rightarrow> nat \<Rightarrow> OrderItem
     \<Rightarrow> failure + database" where
  "reconcileItem e originalItems db i item =
     (let d = quantityDiff originalItems item
      in case checkIncrease e originalItems db i item of
           Some f \<Rightarrow> Inl f
         | None \<Rightarrow>
             if d \<noteq> 0 then
               case select_stock e (GetItemStock i) db (productId item) of
                 None \<Rightarrow> Inl (FailedToGetStock (productId item))
               | Some stock \<Rightarrow>
                   let currentStock = num_or stock 0;
                       newStock = (if d > 0 then currentStock - \<bar>d\<bar> else currentStock + \<bar>d\<bar>)
                   in (case update_stock e (UpdateItemStock i) db (productId item) newStock of
                         None \<Rightarrow> Inl (FailedToUpdateStock (productName item))
                       | Some db' \<Rightarrow> Inr db')
             else Inr db)"

fun reconcileItems ::
  "env \<Rightarrow> (string \<times> OrderItemMap) list \<Rightarrow> database \<Rightarrow> nat \<Rightarrow> OrderItem list
     \<Rightarrow> failure option \<times> database" where
  "reconcileItems e originalItems db i [] = (None, db)"
| "reconcileItems e originalItems db i (item # rest) =
     (case reconcileItem e originalItems db i item of
        Inl f \<Rightarrow> (Some f, db)
      | Inr db' \<Rightarrow> reconcileItems e originalItems db' (Suc i) rest)"

text \<open>
  \<^verbatim>\<open>cleanedData\<close> applied to the row: a field of the request is written when it is
  given and truthy (\<^verbatim>\<open>total\<close>: when it is a number); the others keep their value.
\<close>

definition truthy :: "string option \<Rightarrow> string option" where
  "truthy x = (case x of None \<Rightarrow> None | Some s \<Rightarrow> if s = [] then None else Some s)"

definition cleanedData :: "env \<Rightarrow> PartialOrder \<Rightarrow> order_row \<Rightarrow> order_row" where
  "cleanedData e order row =
     row\<lparr>customer_id := (case truthy (customerIdP order) of
                           Some c \<Rightarrow> ensureUUID e CustomerIdArg c | None \<Rightarrow> customer_id row),
         customer_name := (case truthy (customerNameP order) of
                             Some n \<Rightarrow> n | None \<Rightarrow> customer_name row),
         employee_id := (case truthy (employeeIdP order) of
                           Some c \<Rightarrow> ensureUUID e EmployeeIdArg c | None \<Rightarrow> employee_id row),
         employee_name := (case truthy (employeeNameP order) of
                             Some n \<Rightarrow> n | None \<Rightarrow> employee_name row),
         total_col := (case orderTotalP order of Some t \<Rightarrow> t | None \<Rightarrow> total_col row)\<rparr>"

text \<open>``Delete all existing items'': the result of the call is not looked at.\<close>

definition delete_items_unchecked :: "env \<Rightarrow> site \<Rightarrow> database \<Rightarrow> string \<Rightarrow> database" where
  "delete_items_unchecked e s db oid =
     (if fails e s then db
      else db\<lparr>order_items := filter (\<lambda>r. order_id r \<noteq> oid) (order_items db)\<rparr>)"

text \<open>``Return the complete order with items'': the items are the inserted rows as they are.\<close>

definition toUpdatedOrder :: "env \<Rightarrow> string \<Rightarrow> order_row \<Rightarrow> order_item_row list \<Rightarrow> Order" where
  "toUpdatedOrder e oid row rows =
     \<lparr>customerId = ensureUUID e RetCustomerId (customer_id row),
      customerName = str_or (customer_name row) [],
      employeeId = ensureUUID e RetEmployeeId (employee_id row),
      employeeName = str_or (employee_name row) [],
      items = map (\<lambda>r. \<lparr>itemId = id_col r, productId = product_id r,
                          productName = product_name r, quantity = quantity_col r,
                          price = price_col r\<rparr>) rows,
      orderTotal = num_or (total_col row) 0,
      orderId = ensureUUID e RetId oid,
      status = None,
      createdAt = (case created_at row of Some t \<Rightarrow> t | None \<Rightarrow> now e RetCreatedAt)\<rparr>"

text \<open>
  The order of the writes is the source's: the original order is read, then the header
  row is updated (``First update the order''), then the stock is reconciled, then the
  item rows are replaced. \<^verbatim>\<open>single()\<close> after the update has found the row the first
  read found, so the branch ``No data returned after update'' is not taken.
\<close>

definition updateOrder ::
  "env \<Rightarrow> database \<Rightarrow> string \<Rightarrow> PartialOrder \<Rightarrow> (failure + Order) \<times> database" where
  "updateOrder e db ident order =
     (if \<not> isSupabaseConfigured then (Inl NotConfigured, db)
      else
        let uuid = ensureUUID e ArgId ident
        in if fails e FetchOriginalOrder then (Inl ErrorFetchingOriginalOrder, db)
           else (case orders db uuid of
             None \<Rightarrow> (Inl ErrorFetchingOriginalOrder, db)
           | Some originalRow \<Rightarrow>
               let originalRows = items_of db uuid
               in if fails e UpdateOrderRow then (Inl ErrorUpdatingOrder, db)
                  else
                    let orderData = cleanedData e order originalRow;
                        db1 = db\<lparr>orders := (orders db)(uuid \<mapsto> orderData)\<rparr>
                    in (case itemsP order of
                         None \<Rightarrow> (Inr (toUpdatedOrder e uuid orderData []), db1)
                       | Some its \<Rightarrow>
                           let originalItems = originalItemsMap originalRows;
                               newItems = newItemsMap its
                           in (case restoreRemovedItems e newItems db1 0 originalItems of
                                (Some f, db2) \<Rightarrow> (Inl f, db2)
                              | (None, db2) \<Rightarrow>
                                  (case reconcileItems e originalItems db2 0 its of
                                     (Some f, db3) \<Rightarrow> (Inl f, db3)
                                   | (None, db3) \<Rightarrow>
                                       let db4 = delete_items_unchecked e DeleteOldItems db3 uuid
                                       in if fails e InsertNewItems
                                          then (Inl FailedToUpdateOrderItems, db4)
                                          else
                                            let itemsData = item_rows e uuid its;
                                                db5 = db4\<lparr>order_items :=
                                                             order_items db4 @ itemsData\<rparr>
                                            in (Inr (toUpdatedOrder e uuid orderData itemsData),
                                                db5))))))"

subsection \<open>\<^verbatim>\<open>deleteOrder\<close> and the customer functions\<close>







subsection \<open>The order forms (\<^verbatim>\<open>OrderNew.tsx\<close>, \<^verbatim>\<open>OrderEdit.tsx\<close>)\<close>

text \<open>
  The state of a form that the submit handlers read. \<open>formCustomers\<close> and
  \<open>formEmployees\<close> are the results of the queries \<^verbatim>\<open>fetchCustomers\<close> and
  \<^verbatim>\<open>fetchEmployees\<close> (id and name of each row).
\<close>

record OrderForm =
  formItems :: "OrderItem list"
  formCustomerId :: string
  formEmployeeId :: string
  isSubmitting :: bool
  formCustomers :: "(string \<times> string) list"
  formEmployees :: "(string \<times> string) list"

text \<open>
  What a handler did: it returned without a call to the data layer (after the toast
  with the given title, or silently), or it called the data layer, whose result follows.
\<close>

datatype submitted = NoCall string | Called "failure + Order"

text \<open>
  \<^verbatim>\<open>calculateTotal\<close> (the same function in both forms): \<^verbatim>\<open>items.reduce\<close> from \<open>0\<close>,
  skipping the lines with no product.
\<close>

definition calculateTotal :: "OrderItem list \<Rightarrow> rat" where
  "calculateTotal its =
     foldl (\<lambda>sum item. if productId item = [] then sum
                         else sum + num_or (price item) 0 * of_int (num_or (quantity item) 1))
           0 its"

text \<open>The items as the handlers pass them to the data layer.\<close>

definition submittedItems :: "OrderItem list \<Rightarrow> OrderItem list" where
  "submittedItems its =
     map (\<lambda>item. \<lparr>itemId = itemId item, productId = productId item,
                    productName = str_or (productName item) [],
                    quantity = num_or (quantity item) 1,
                    price = num_or (price item) 0\<rparr>) its"

text \<open>\<^verbatim>\<open>removeItem\<close> of \<^verbatim>\<open>OrderNew\<close>: the new list, and the title of the toast if any.\<close>

definition removeItem :: "OrderItem list \<Rightarrow> string \<Rightarrow> OrderItem list \<times> string option" where
  "removeItem its ident =
     (if length its > 1 then (filter (\<lambda>item. itemId item \<noteq> ident) its, None)
      else (its, Some ''Cannot remove item''))"

text \<open>\<^verbatim>\<open>confirmDelete\<close> of \<^verbatim>\<open>OrderEdit\<close>; \<open>itemToDelete\<close> is \<^verbatim>\<open>string | null\<close>.\<close>

definition confirmDelete ::
  "OrderItem list \<Rightarrow> string option \<Rightarrow> OrderItem list \<times> string option" where
  "confirmDelete its itemToDelete =
     (case truthy itemToDelete of
        Some ident \<Rightarrow>
          if length its > 1 then (filter (\<lambda>item. itemId item \<noteq> ident) its, None)
          else (its, Some ''Cannot remove item'')
      | None \<Rightarrow> (its, Some ''Cannot remove item''))"

text \<open>
  \<^verbatim>\<open>handleSubmit\<close> of \<^verbatim>\<open>OrderNew\<close>. A customer or employee that is not in the query
  result makes the handler throw inside its \<^verbatim>\<open>try\<close>, which ends in the toast
  ``Creation failed'' before \<^verbatim>\<open>createOrder\<close> is called.
\<close>

definition handleSubmit :: "env \<Rightarrow> database \<Rightarrow> OrderForm \<Rightarrow> submitted \<times> database" where
  "handleSubmit e db form =
     (if isSubmitting form then (NoCall [], db)
      else if formCustomerId form = [] then (NoCall ''Customer required'', db)
      else if formEmployeeId form = [] then (NoCall ''Employee required'', db)
      else if length (formItems form) = 0 \<or> list_ex (\<lambda>item. productId item = []) (formItems form)
           then (NoCall ''Products required'', db)
      else
        let total = calculateTotal (formItems form)
        in (case (map_of (formCustomers form) (formCustomerId form),
                  map_of (formEmployees form) (formEmployeeId form)) of
              (Some customer, Some employee) \<Rightarrow>
                (case createOrder e db
                        \<lparr>customerId = formCustomerId form, customerName = customer,
                         employeeId = formEmployeeId form, employeeName = employee,
                         items = submittedItems (formItems form), orderTotal = total\<rparr> of
                   (newOrder, db') \<Rightarrow> (Called newOrder, db'))
            | _ \<Rightarrow> (NoCall ''Creation failed'', db)))"

text \<open>\<^verbatim>\<open>confirmUpdate\<close> of \<^verbatim>\<open>OrderEdit\<close>; \<open>ident\<close> is the route parameter \<^verbatim>\<open>id\<close>.\<close>

definition confirmUpdate ::
  "env \<Rightarrow> database \<Rightarrow> string \<Rightarrow> OrderForm \<Rightarrow> submitted \<times> database" where
  "confirmUpdate e db ident form =
     (if ident = [] \<or> isSubmitting form then (NoCall [], db)
      else if formCustomerId form = [] then (NoCall ''Customer required'', db)
      else if formEmployeeId form = [] then (NoCall ''Employee required'', db)
      else if length (formItems form) = 0 \<or> list_ex (\<lambda>item. productId item = []) (formItems form)
           then (NoCall ''Products required'', db)
      else
        (case map_of (formCustomers form) (formCustomerId form) of
           None \<Rightarrow> (NoCall ''Error'', db)
         | Some customer \<Rightarrow>
             (case map_of (formEmployees form) (formEmployeeId form) of
                None \<Rightarrow> (NoCall ''Error'', db)
              | Some employee \<Rightarrow>
                  let total = calculateTotal (formItems form)
                  in (case updateOrder e db ident
                             \<lparr>customerIdP = Some (formCustomerId form),
                              customerNameP = Some customer,
                              employeeIdP = Some (formEmployeeId form),
                              employeeNameP = Some employee,
                              orderTotalP = Some total,
                              itemsP = Some (submittedItems (formItems form))\<rparr> of
                        (updatedOrder, db') \<Rightarrow> (Called updatedOrder, db')))))"


subsection \<open>Sample data\<close>

text \<open>
  A store and requests for the concrete runs below. All ids are version-4 UUIDs, as the
  forms and the store hand them out. In \<open>quiet\<close> no call to the store fails.
\<close>

definition quiet :: env where
  "quiet = \<lparr>fails = (\<lambda>_. False), pg_code = (\<lambda>_. []),
            uuidv4 = (\<lambda>_. ''0f0e0d0c-0b0a-4909-8807-060504030201''), now = (\<lambda>_. 0)\<rparr>"

definition pidP :: string where
  "pidP = ''a1b2c3d4-0000-4000-8000-000000000001''"

definition pidQ :: string where
  "pidQ = ''a1b2c3d4-0000-4000-8000-000000000002''"


definition cidAnn :: string where
  "cidAnn = ''c0000000-0000-4000-8000-000000000001''"

definition eidBob :: string where
  "eidBob = ''e0000000-0000-4000-8000-000000000001''"

definition oid1 :: string where
  "oid1 = ''0d000000-0000-4000-8000-000000000001''"

definition line :: "string \<Rightarrow> string \<Rightarrow> int \<Rightarrow> OrderItem" where
  "line ident pid q =
     \<lparr>itemId = ident, productId = pid, productName = ''iPhone'', quantity = q, price = 50\<rparr>"

definition iid1 :: string where
  "iid1 = ''10000000-0000-4000-8000-000000000001''"

definition iid2 :: string where
  "iid2 = ''10000000-0000-4000-8000-000000000002''"

text \<open>
  A shop with 5 units of product P and 2 units of product Q (and no product X), and no
  order yet.
\<close>

definition shop :: database where
  "shop = \<lparr>products = [pidP \<mapsto> 5, pidQ \<mapsto> 2], orders = Map.empty, order_items = [],
           customers = Map.empty\<rparr>"

definition request :: "OrderItem list \<Rightarrow> rat \<Rightarrow> OrderData" where
  "request its t =
     \<lparr>customerId = cidAnn, customerName = ''Ann'', employeeId = eidBob,
      employeeName = ''Bob'', items = its, orderTotal = t\<rparr>"

text \<open>
  The shop after an order of 3 units of P at 50 was placed: 7 units of P are left, and
  the order \<open>oid1\<close> with its one line is stored with the total 150.
\<close>

definition shopAfterOrder :: database where
  "shopAfterOrder =
     \<lparr>products = [pidP \<mapsto> 7, pidQ \<mapsto> 2],
      orders = [oid1 \<mapsto> \<lparr>customer_id = cidAnn, customer_name = ''Ann'', employee_id = eidBob,
                           employee_name = ''Bob'', total_col = 150, created_at = Some 1,
                           status_col = None\<rparr>],
      order_items = [\<lparr>id_col = iid1, order_id = oid1, product_id = pidP,
                      product_name = ''iPhone'', quantity_col = 3, price_col = 50\<rparr>],
      customers = Map.empty\<rparr>"

definition edit :: "OrderItem list \<Rightarrow> rat \<Rightarrow> PartialOrder" where
  "edit its t =
     \<lparr>customerIdP = Some cidAnn, customerNameP = Some ''Ann'', employeeIdP = Some eidBob,
      employeeNameP = Some ''Bob'', orderTotalP = Some t, itemsP = Some its\<rparr>"

definition orderForm :: "OrderItem list \<Rightarrow> OrderForm" where
  "orderForm its =
     \<lparr>formItems = its, formCustomerId = cidAnn, formEmployeeId = eidBob,
      isSubmitting = False, formCustomers = [(cidAnn, ''Ann'')],
      formEmployees = [(eidBob, ''Bob'')]\<rparr>"



definition otherDraws :: env where
  "otherDraws = quiet\<lparr>uuidv4 := (\<lambda>_. ''ffffffff-ffff-4fff-bfff-ffffffffffff''),
                      now := (\<lambda>_. 99)\<rparr>"

text \<open>
  The same shop with an item row whose product id is a UUID of another version than 4,
  as a seed script or another client of the database may have written it.
\<close>

definition seededShop :: database where
  "seededShop =
     shopAfterOrder\<lparr>order_items :=
        [\<lparr>id_col = iid1, order_id = oid1,
          product_id = ''11111111-1111-1111-1111-111111111111'',
          product_name = ''iPhone'', quantity_col = 3, price_col = 50\<rparr>]\<rparr>"

subsection \<open>Predicates of the statements\<close>

text \<open>
  The stored order \<open>oid\<close>, if there is one, has the shape \<^verbatim>\<open>createOrder\<close> and
  \<^verbatim>\<open>updateOrder\<close> write: ids that \<^verbatim>\<open>isValidUUID\<close> accepts, a creation time, item rows
  with an id. (\<^verbatim>\<open>fetchOrderById\<close> replaces what is missing by a fresh value.)
\<close>

definition stable_order :: "database \<Rightarrow> string \<Rightarrow> bool" where
  "stable_order db oid =
     (case orders db oid of
        None \<Rightarrow> True
      | Some row \<Rightarrow>
          isValidUUID (customer_id row) \<and> isValidUUID (employee_id row)
          \<and> created_at row \<noteq> None
          \<and> list_all (\<lambda>r. id_col r \<noteq> [] \<and> isValidUUID (product_id r)) (items_of db oid))"

text \<open>The failures of \<^verbatim>\<open>updateOrder\<close> that come from a stock check, a stock read or a stock write.\<close>

fun stock_failure :: "failure \<Rightarrow> bool" where
  "stock_failure (FailedToCheckStock _) = True"
| "stock_failure (InsufficientStock _ _ _) = True"
| "stock_failure (InsufficientAdditional _ _ _) = True"
| "stock_failure (FailedToGetStock _) = True"
| "stock_failure (FailedToUpdateRemovedStock _) = True"
| "stock_failure (FailedToUpdateStock _) = True"
| "stock_failure _ = False"

text \<open>
  The quantity of a product in the stored order and in the item list of a request; a
  product that is missing counts as 0.
\<close>

definition originalQuantity :: "database \<Rightarrow> string \<Rightarrow> string \<Rightarrow> int" where
  "originalQuantity db oid pid =
     (case find (\<lambda>r. product_id r = pid) (items_of db oid) of
        Some r \<Rightarrow> quantity_col r | None \<Rightarrow> 0)"

definition newQuantity :: "OrderItem list \<Rightarrow> string \<Rightarrow> int" where
  "newQuantity its pid =
     (case find (\<lambda>item. productId item = pid) its of
        Some item \<Rightarrow> quantity item | None \<Rightarrow> 0)"

text \<open>No product has a negative stock.\<close>

definition stock_nonnegative :: "database \<Rightarrow> bool" where
  "stock_nonnegative db = (\<forall>p s. products db p = Some s \<longrightarrow> 0 \<le> s)"

section \<open>Properties\<close>

subsection \<open>Stock validation on create\<close>


lemma validateStock_None:
  "validateStock e db i its = None \<Longrightarrow> item \<in> set its \<Longrightarrow>
     \<exists>stock. products db (productId item) = Some stock \<and> quantity item \<le> stock"
  by (induction its arbitrary: i)
     (auto simp: select_stock_def split: option.splits if_splits)

text \<open>
  Nothing is written before every line has passed the check: a call that changed the
  store has found, for each line, a stock at least as large as the quantity asked.
\<close>

lemma createOrder_validates_before_writing:
  assumes "snd (createOrder e db order) \<noteq> db" and "item \<in> set (items order)"
  shows "\<exists>stock. products db (productId item) = Some stock \<and> quantity item \<le> stock"
proof (cases "validateStock e db 0 (items order)")
  case None
  from validateStock_None[OF None assms(2)] show ?thesis .
next
  case (Some f)
  then have "createOrder e db order = (Inl f, db)"
    by (simp add: createOrder_def isSupabaseConfigured_def)
  with assms(1) show ?thesis by simp
qed







subsection \<open>Orders without items\<close>

text \<open>
  \<^verbatim>\<open>createOrder\<close> itself takes an empty item list: the validation loop has nothing to
  check, the header is inserted, the block guarded by \<^verbatim>\<open>order.items.length > 0\<close> is
  skipped, and the order is returned with no item.
\<close>

theorem createOrder_accepts_empty_item_list:
  "\<not> isl (fst (createOrder quiet shop (request [] 0)))
   \<and> orders (snd (createOrder quiet shop (request [] 0))) (uuidv4 quiet NewId) \<noteq> None
   \<and> items_of (snd (createOrder quiet shop (request [] 0))) (uuidv4 quiet NewId) = []"
  by code_simp

text \<open>
  C6, as the code has it: the guard is in the forms. A submission of the create form
  (\<^verbatim>\<open>handleSubmit\<close>) or of the edit form (\<^verbatim>\<open>confirmUpdate\<close>) with an empty item list
  ends in a toast before any call to the data layer, the store unchanged; and removing
  the last remaining line is refused by \<^verbatim>\<open>removeItem\<close> and \<^verbatim>\<open>confirmDelete\<close>, which
  leave the list as it is.
\<close>

theorem forms_reject_empty_item_list:
  "(formItems form = [] \<longrightarrow>
       (\<exists>t. handleSubmit e db form = (NoCall t, db))
     \<and> (\<exists>t. confirmUpdate e db ident form = (NoCall t, db)))
   \<and> (length its = 1 \<longrightarrow>
         removeItem its x = (its, Some ''Cannot remove item'')
       \<and> confirmDelete its y = (its, Some ''Cannot remove item''))"
  by (simp add: handleSubmit_def confirmUpdate_def removeItem_def confirmDelete_def
           split: option.splits)

theorem forms_reject_empty_item_list_witness:
  "handleSubmit quiet shopAfterOrder (orderForm [])
     = (NoCall ''Products required'', shopAfterOrder)
   \<and> confirmUpdate quiet shopAfterOrder oid1 (orderForm [])
       = (NoCall ''Products required'', shopAfterOrder)
   \<and> removeItem [line iid1 pidP 3] iid1 = ([line iid1 pidP 3], Some ''Cannot remove item'')
   \<and> confirmDelete [line iid1 pidP 3] (Some iid1)
       = ([line iid1 pidP 3], Some ''Cannot remove item'')"
proof -
  have empty: "formItems (orderForm []) = []" by (simp add: orderForm_def)
  have one: "length [line iid1 pidP 3] = 1" by simp
  have a: "\<exists>t. handleSubmit quiet shopAfterOrder (orderForm []) = (NoCall t, shopAfterOrder)"
   and b: "\<exists>t. confirmUpdate quiet shopAfterOrder oid1 (orderForm [])
                 = (NoCall t, shopAfterOrder)"
   and c: "removeItem [line iid1 pidP 3] iid1
             = ([line iid1 pidP 3], Some ''Cannot remove item'')"
   and d: "confirmDelete [line iid1 pidP 3] (Some iid1)
             = ([line iid1 pidP 3], Some ''Cannot remove item'')"
    using forms_reject_empty_item_list[where form = "orderForm []" and e = quiet
        and db = shopAfterOrder and ident = oid1 and its = "[line iid1 pidP 3]"
        and x = iid1 and y = "Some iid1"] empty one
    by blast+
  have t1: "handleSubmit quiet shopAfterOrder (orderForm []) = (NoCall t, shopAfterOrder)
        \<Longrightarrow> t = ''Products required''" for t
    by (simp add: handleSubmit_def orderForm_def cidAnn_def eidBob_def)
  have t2: "confirmUpdate quiet shopAfterOrder oid1 (orderForm []) = (NoCall t, shopAfterOrder)
        \<Longrightarrow> t = ''Products required''" for t
    by (simp add: confirmUpdate_def orderForm_def cidAnn_def eidBob_def oid1_def)
  from a t1 b t2 c d show ?thesis by blast
qed

subsection \<open>The compensating delete of \<^verbatim>\<open>createOrder\<close>\<close>







subsection \<open>Reading an order twice\<close>

lemma toFetchedOrder_stable:
  assumes "isValidUUID oid" "isValidUUID (customer_id row)" "isValidUUID (employee_id row)"
    "created_at row \<noteq> None"
    "list_all (\<lambda>r. id_col r \<noteq> [] \<and> isValidUUID (product_id r)) rows"
  shows "toFetchedOrder e1 oid row rows = toFetchedOrder e2 oid row rows"
proof -
  have "id_col r \<noteq> [] \<and> isValidUUID (product_id r)"
    if "(i, r) \<in> set (enumerate 0 rows)" for i r
    using assms(5) that by (auto simp: list_all_iff in_set_enumerate_eq)
  then have "map (\<lambda>(i, r).
                     \<lparr>itemId = str_or (id_col r) (uuidv4 e1 (RetItemId i)),
                      productId = ensureUUID e1 (RetProductId i) (product_id r),
                      productName = str_or (product_name r) ''Unknown Product'',
                      quantity = num_or (quantity_col r) 1,
                      price = num_or (price_col r) 0\<rparr>) (enumerate 0 rows)
           = map (\<lambda>(i, r).
                     \<lparr>itemId = str_or (id_col r) (uuidv4 e2 (RetItemId i)),
                      productId = ensureUUID e2 (RetProductId i) (product_id r),
                      productName = str_or (product_name r) ''Unknown Product'',
                      quantity = num_or (quantity_col r) 1,
                      price = num_or (price_col r) 0\<rparr>) (enumerate 0 rows)"
    by (intro map_cong) (auto simp: str_or_def ensureUUID_def)
  with assms(1-4) show ?thesis
    by (auto simp: toFetchedOrder_def ensureUUID_def)
qed

text \<open>
  A stored item whose product id \<^verbatim>\<open>isValidUUID\<close> rejects: each read replaces it by the
  UUID drawn in that read, so two reads of the unchanged store differ.
\<close>

theorem fetchOrderById_differs_on_seeded_row:
  "fetchOrderById quiet seededShop oid1 \<noteq> fetchOrderById otherDraws seededShop oid1"
  by code_simp

text \<open>
  C9, as the code has it: two calls of \<^verbatim>\<open>fetchOrderById\<close> on the same store (the two
  environments \<open>e1\<close> and \<open>e2\<close> stand for the two calls: their draws and clocks may differ)
  return the same result, header and items, provided the store answers the two queries
  alike in both calls, the stored order has the shape \<open>stable_order\<close>, and the id is a
  valid UUID (or, for a malformed id, neither substituted id is the id of an order).
\<close>

theorem fetchOrderById_repeatable:
  assumes "isValidUUID ident
           \<or> (orders db (uuidv4 e1 ArgId) = None \<and> orders db (uuidv4 e2 ArgId) = None)"
    and "stable_order db ident"
    and "fails e1 CountOrder = fails e2 CountOrder"
    and "fails e1 SelectOrder = fails e2 SelectOrder"
  shows "fetchOrderById e1 db ident = fetchOrderById e2 db ident"
proof (cases "isValidUUID ident")
  case True
  then have u: "ensureUUID e1 ArgId ident = ident" "ensureUUID e2 ArgId ident = ident"
    by (simp_all add: ensureUUID_def)
  show ?thesis
  proof (cases "orders db ident")
    case None
    with u assms(3) show ?thesis
      by (simp add: fetchOrderById_def Let_def)
  next
    case (Some row)
    with assms(2) True
    have "toFetchedOrder e1 ident row (items_of db ident)
            = toFetchedOrder e2 ident row (items_of db ident)"
      by (intro toFetchedOrder_stable) (auto simp: stable_order_def)
    with Some u assms(3,4) show ?thesis
      by (simp add: fetchOrderById_def Let_def)
  qed
next
  case False
  with assms(1) have "orders db (uuidv4 e1 ArgId) = None" "orders db (uuidv4 e2 ArgId) = None"
    by auto
  with False assms(3) show ?thesis
    by (simp add: fetchOrderById_def Let_def ensureUUID_def)
qed

theorem fetchOrderById_repeatable_witness:
  "isValidUUID oid1 \<and> stable_order shopAfterOrder oid1
   \<and> \<not> isl (fetchOrderById quiet shopAfterOrder oid1)
   \<and> fetchOrderById quiet shopAfterOrder oid1 = fetchOrderById otherDraws shopAfterOrder oid1"
proof -
  have valid: "isValidUUID oid1" by code_simp
  have stable: "stable_order shopAfterOrder oid1" by code_simp
  have found: "\<not> isl (fetchOrderById quiet shopAfterOrder oid1)" by code_simp
  have count: "fails quiet CountOrder = fails otherDraws CountOrder"
    and select: "fails quiet SelectOrder = fails otherDraws SelectOrder"
    by (simp_all add: quiet_def otherDraws_def)
  from valid have either: "isValidUUID oid1
      \<or> (orders shopAfterOrder (uuidv4 quiet ArgId) = None
         \<and> orders shopAfterOrder (uuidv4 otherDraws ArgId) = None)"
    by simp
  from fetchOrderById_repeatable[OF either stable count select] valid stable found
  show ?thesis by blast
qed

subsection \<open>Ids that are not valid UUIDs\<close>





subsection \<open>Failures of \<^verbatim>\<open>updateOrder\<close>\<close>

lemma not_isl_Inr: "\<not> isl x \<Longrightarrow> \<exists>y. x = Inr y"
  by (cases x) simp_all

lemma update_stock_tables:
  "update_stock e s db pid n = Some db' \<Longrightarrow>
     orders db' = orders db \<and> order_items db' = order_items db \<and> customers db' = customers db"
  by (auto simp: update_stock_def split: if_splits)

lemma restoreRemovedItem_tables:
  "restoreRemovedItem e N db j entry = Inr db' \<Longrightarrow>
     orders db' = orders db \<and> order_items db' = order_items db"
  by (auto simp: restoreRemovedItem_def Let_def split: prod.splits if_splits option.splits
           dest: update_stock_tables)

lemma restoreRemovedItems_tables:
  "restoreRemovedItems e N db j es = (r, db') \<Longrightarrow>
     orders db' = orders db \<and> order_items db' = order_items db"
proof (induction es arbitrary: db j)
  case Nil
  then show ?case by simp
next
  case (Cons entry es)
  show ?case
  proof (cases "restoreRemovedItem e N db j entry")
    case (Inl f)
    with Cons.prems show ?thesis by simp
  next
    case (Inr db1)
    with Cons.prems have "restoreRemovedItems e N db1 (Suc j) es = (r, db')" by simp
    from Cons.IH[OF this] restoreRemovedItem_tables[OF Inr] show ?thesis by simp
  qed
qed

lemma reconcileItem_tables:
  "reconcileItem e O' db i item = Inr db' \<Longrightarrow>
     orders db' = orders db \<and> order_items db' = order_items db"
  by (auto simp: reconcileItem_def Let_def split: if_splits option.splits
           dest: update_stock_tables)

lemma reconcileItems_tables:
  "reconcileItems e O' db i its = (r, db') \<Longrightarrow>
     orders db' = orders db \<and> order_items db' = order_items db"
proof (induction its arbitrary: db i)
  case Nil
  then show ?case by simp
next
  case (Cons item its)
  show ?case
  proof (cases "reconcileItem e O' db i item")
    case (Inl f)
    with Cons.prems show ?thesis by simp
  next
    case (Inr db1)
    with Cons.prems have "reconcileItems e O' db1 (Suc i) its = (r, db')" by simp
    from Cons.IH[OF this] reconcileItem_tables[OF Inr] show ?thesis by simp
  qed
qed

text \<open>The branches of \<^verbatim>\<open>updateOrder\<close> that end in a failure, with the store they leave.\<close>

lemma updateOrder_failure_cases:
  assumes "updateOrder e db ident order = (Inl f, db')"
  shows "(f = ErrorFetchingOriginalOrder \<and> db' = db)
       \<or> (f = ErrorUpdatingOrder \<and> db' = db)
       \<or> (\<exists>row its. orders db (ensureUUID e ArgId ident) = Some row \<and> itemsP order = Some its
            \<and> ((restoreRemovedItems e (newItemsMap its)
                    (db\<lparr>orders := (orders db)(ensureUUID e ArgId ident \<mapsto> cleanedData e order row)\<rparr>)
                    0 (originalItemsMap (items_of db (ensureUUID e ArgId ident))) = (Some f, db'))
               \<or> (\<exists>db2. restoreRemovedItems e (newItemsMap its)
                    (db\<lparr>orders := (orders db)(ensureUUID e ArgId ident \<mapsto> cleanedData e order row)\<rparr>)
                    0 (originalItemsMap (items_of db (ensureUUID e ArgId ident))) = (None, db2)
                   \<and> (reconcileItems e (originalItemsMap (items_of db (ensureUUID e ArgId ident)))
                         db2 0 its = (Some f, db')
                      \<or> f = FailedToUpdateOrderItems))))"
  using assms
  by (auto simp: updateOrder_def isSupabaseConfigured_def Let_def
           split: if_splits option.splits prod.splits)


text \<open>
  \<^verbatim>\<open>updateOrder\<close> writes the header first (``First update the order'') and reconciles
  the stock afterwards. So when a stock check, a stock read or a stock write fails, the
  rows of \<^verbatim>\<open>order_items\<close> are the ones before the call, but the header row already
  holds the fields of the request (\<open>cleanedData\<close>).
\<close>

lemma updateOrder_stock_failure_state:
  assumes "updateOrder e db ident order = (Inl f, db')" and "stock_failure f"
  shows "order_items db' = order_items db
         \<and> (\<exists>row. orders db (ensureUUID e ArgId ident) = Some row
                \<and> orders db' = (orders db)(ensureUUID e ArgId ident
                                            \<mapsto> cleanedData e order row))"
proof -
  let ?uuid = "ensureUUID e ArgId ident"
  from updateOrder_failure_cases[OF assms(1)] assms(2)
  obtain row its r where row: "orders db ?uuid = Some row"
    and loops: "restoreRemovedItems e (newItemsMap its)
                  (db\<lparr>orders := (orders db)(?uuid \<mapsto> cleanedData e order row)\<rparr>)
                  0 (originalItemsMap (items_of db ?uuid)) = (Some f, db')
                \<or> (\<exists>db2. restoreRemovedItems e (newItemsMap its)
                      (db\<lparr>orders := (orders db)(?uuid \<mapsto> cleanedData e order row)\<rparr>)
                      0 (originalItemsMap (items_of db ?uuid)) = (None, db2)
                    \<and> reconcileItems e (originalItemsMap (items_of db ?uuid)) db2 0 its
                        = (Some f, db'))"
    by auto
  from loops have "orders db' = (orders db)(?uuid \<mapsto> cleanedData e order row)
                   \<and> order_items db' = order_items db"
    by (auto dest!: restoreRemovedItems_tables reconcileItems_tables)
  with row show ?thesis by simp
qed

text \<open>
  C2 (a failed stock check of \<^verbatim>\<open>updateOrder\<close> leaves the header row and the item rows
  as they were). The run below is an edit of the order of 3 units of P that asks for 20
  units while the stock is 7. The call throws the insufficient-stock error for the 17
  additional units and the item row is the one before the call, but the header row was
  written before the stock was checked: the stored total of the order has gone from 150
  to the 1000 of the rejected request, over an item row of 3 units at 50.
\<close>

theorem updateOrder_insufficient_stock_header_written:
  "fst (updateOrder quiet shopAfterOrder oid1 (edit [line iid1 pidP 20] 1000))
     = Inl (InsufficientAdditional ''iPhone'' 7 17)
   \<and> map_option total_col (orders shopAfterOrder oid1) = Some 150
   \<and> map_option total_col
        (orders (snd (updateOrder quiet shopAfterOrder oid1 (edit [line iid1 pidP 20] 1000)))
           oid1) = Some 1000
   \<and> map (\<lambda>r. (quantity_col r, price_col r))
        (items_of (snd (updateOrder quiet shopAfterOrder oid1 (edit [line iid1 pidP 20] 1000)))
           oid1) = [(3, 50)]"
  by code_simp

text \<open>
  C8 (on an edit only increases are checked against the stock; a line that is removed is
  never rejected by a stock constraint). The run below first places an order with two
  lines of product P, 3 units and 2 units, which takes the stock of P from 5 to 0. The
  edit then removes the second line, so that the order goes from 5 units of P to 3.
  \<^verbatim>\<open>updateOrder\<close> keys \<^verbatim>\<open>originalItems\<close> by product id, where the second row has
  replaced the first: the remaining line is taken for an increase from 2 to 3, it is
  checked against the stock, and the edit is rejected for insufficient stock (available
  0, additional requested 1).
\<close>

theorem updateOrder_removed_line_rejected_for_stock:
  "\<not> isl (fst (createOrder quiet shop (request [line iid1 pidP 3, line iid2 pidP 2] 250)))
   \<and> products (snd (createOrder quiet shop (request [line iid1 pidP 3, line iid2 pidP 2] 250)))
        pidP = Some 0
   \<and> map quantity_col
        (items_of (snd (createOrder quiet shop (request [line iid1 pidP 3, line iid2 pidP 2] 250)))
           (uuidv4 quiet NewId)) = [3, 2]
   \<and> fst (updateOrder quiet
             (snd (createOrder quiet shop (request [line iid1 pidP 3, line iid2 pidP 2] 250)))
             (uuidv4 quiet NewId) (edit [line iid1 pidP 3] 150))
       = Inl (InsufficientAdditional ''iPhone'' 0 1)"
  by code_simp

subsection \<open>Stock deltas of an edit\<close>

lemma Map_set_fresh: "k \<notin> fst ` set m \<Longrightarrow> Map_set m k v = m @ [(k, v)]"
  by (induction m) auto

lemma foldl_Map_set_distinct:
  "distinct (map fst (acc @ es)) \<Longrightarrow> foldl (\<lambda>m (k, v). Map_set m k v) acc es = acc @ es"
proof (induction es arbitrary: acc)
  case Nil
  then show ?case by simp
next
  case (Cons entry es)
  obtain k v where entry: "entry = (k, v)" by (cases entry)
  from Cons.prems entry have fresh: "k \<notin> fst ` set acc" by auto
  from Cons.prems entry have "distinct (map fst ((acc @ [(k, v)]) @ es))" by simp
  from Cons.IH[OF this] fresh entry show ?case
    by (simp add: Map_set_fresh)
qed

lemma new_Map_distinct: "distinct (map fst es) \<Longrightarrow> new_Map es = es"
  using foldl_Map_set_distinct[of "[]" es] by (simp add: new_Map_def)

text \<open>
  Each loop of \<^verbatim>\<open>updateOrder\<close> that ends without an error has moved the stock of a
  product by the sum of what its iterations add or subtract.
\<close>

lemma restoreRemovedItem_stock:
  assumes "restoreRemovedItem e N db j (k, oi) = Inr db1"
  shows "products db1 p
           = map_option (\<lambda>s. s + (if k = p \<and> \<not> Map_has N k then mapQuantity oi else 0))
               (products db p)"
  using assms
  by (cases "products db p")
     (auto simp: restoreRemovedItem_def Let_def select_stock_def update_stock_def num_or_def
           split: if_splits option.splits)

lemma restoreRemovedItems_stock:
  "restoreRemovedItems e N db j es = (None, db') \<Longrightarrow>
     products db' p
       = map_option (\<lambda>s. s + (\<Sum>(k, oi)\<leftarrow>es. if k = p \<and> \<not> Map_has N k then mapQuantity oi else 0))
           (products db p)"
proof (induction es arbitrary: db j)
  case Nil
  then show ?case by (cases "products db p") simp_all
next
  case (Cons entry es)
  obtain k oi where entry: "entry = (k, oi)" by (cases entry)
  from Cons.prems obtain db1 where step: "restoreRemovedItem e N db j entry = Inr db1"
    and rest: "restoreRemovedItems e N db1 (Suc j) es = (None, db')"
    by (auto split: sum.splits)
  from restoreRemovedItem_stock[OF step[unfolded entry], of p] Cons.IH[OF rest] entry
  show ?case
    by (cases "products db p") (simp_all add: add.assoc)
qed

lemma reconcileItem_stock:
  assumes "reconcileItem e O' db i item = Inr db1"
  shows "products db1 p
           = map_option (\<lambda>s. s - (if productId item = p then quantityDiff O' item else 0))
               (products db p)"
  using assms
  by (cases "products db p")
     (auto simp: reconcileItem_def Let_def select_stock_def update_stock_def num_or_def
           split: if_splits option.splits)

lemma reconcileItems_stock:
  "reconcileItems e O' db i its = (None, db') \<Longrightarrow>
     products db' p
       = map_option (\<lambda>s. s - (\<Sum>item\<leftarrow>its. if productId item = p then quantityDiff O' item else 0))
           (products db p)"
proof (induction its arbitrary: db i)
  case Nil
  then show ?case by (cases "products db p") simp_all
next
  case (Cons item its)
  from Cons.prems obtain db1 where step: "reconcileItem e O' db i item = Inr db1"
    and rest: "reconcileItems e O' db1 (Suc i) its = (None, db')"
    by (auto split: sum.splits)
  from reconcileItem_stock[OF step, of p] Cons.IH[OF rest]
  show ?case
    by (cases "products db p") simp_all
qed

lemma updateOrder_success_loops:
  assumes "updateOrder e db ident order = (Inr updatedOrder, db')" and "itemsP order = Some its"
  obtains row db2 db3 where
    "orders db (ensureUUID e ArgId ident) = Some row"
    "restoreRemovedItems e (newItemsMap its)
       (db\<lparr>orders := (orders db)(ensureUUID e ArgId ident \<mapsto> cleanedData e order row)\<rparr>) 0
       (originalItemsMap (items_of db (ensureUUID e ArgId ident))) = (None, db2)"
    "reconcileItems e (originalItemsMap (items_of db (ensureUUID e ArgId ident)))
       db2 0 its = (None, db3)"
    "products db' = products db3"
  using assms
  by (auto simp: updateOrder_def isSupabaseConfigured_def Let_def delete_items_unchecked_def
           split: option.splits if_splits prod.splits)

lemma sum_distinct_entries:
  "distinct (map fst es) \<Longrightarrow>
     (\<Sum>(k, v)\<leftarrow>es. if k = p \<and> c k then g v else 0)
       = (case map_of es p of Some v \<Rightarrow> if c p then g v else (0::int) | None \<Rightarrow> 0)"
proof (induction es)
  case Nil
  then show ?case by simp
next
  case (Cons entry es)
  obtain k v where entry: "entry = (k, v)" by (cases entry)
  show ?case
  proof (cases "k = p")
    case True
    with Cons.prems entry have "p \<notin> fst ` set es" by auto
    then have "(\<Sum>(k, v)\<leftarrow>es. if k = p \<and> c k then g v else 0) = 0"
      by (induction es) auto
    with True entry show ?thesis by simp
  next
    case False
    with Cons entry show ?thesis by simp
  qed
qed

lemma sum_distinct_items:
  "distinct (map productId its) \<Longrightarrow>
     (\<Sum>item\<leftarrow>its. if productId item = p then h item else 0)
       = (case find (\<lambda>item. productId item = p) its of Some item \<Rightarrow> h item | None \<Rightarrow> (0::int))"
proof (induction its)
  case Nil
  then show ?case by simp
next
  case (Cons item its)
  show ?case
  proof (cases "productId item = p")
    case True
    with Cons.prems have "p \<notin> productId ` set its" by auto
    then have "(\<Sum>item\<leftarrow>its. if productId item = p then h item else 0) = 0"
      by (induction its) auto
    with True show ?thesis by simp
  next
    case False
    with Cons show ?thesis by simp
  qed
qed

lemma map_of_rows:
  "map_of (map (\<lambda>r. (product_id r, f r)) rows) p
     = map_option f (find (\<lambda>r. product_id r = p) rows)"
  by (induction rows) auto

lemma map_of_items:
  "map_of (map (\<lambda>item. (productId item, f item)) its) p
     = map_option f (find (\<lambda>item. productId item = p) its)"
  by (induction its) auto

lemma find_productId: "find (\<lambda>item. productId item = p) its = Some item \<Longrightarrow> productId item = p"
  by (induction its) (auto split: if_splits)

text \<open>
  With one row per product in the stored order A and one line per product in the request
  B, a successful \<^verbatim>\<open>updateOrder\<close> leaves the stock of every product at its stock before
  the call minus \<open>newQty - oldQty\<close>, where \<open>newQty\<close> is the product's quantity in B (0
  when it is missing from B) and \<open>oldQty\<close> its quantity in A (0 when it is missing from
  A); in particular a product whose difference is zero keeps its stock.
\<close>

lemma updateOrder_stock_delta:
  assumes "updateOrder e db ident order = (Inr updatedOrder, db')"
    and "itemsP order = Some its"
    and "distinct (map product_id (items_of db (ensureUUID e ArgId ident)))"
    and "distinct (map productId its)"
  shows "products db' pid
           = map_option
               (\<lambda>stock. stock - (newQuantity its pid
                                   - originalQuantity db (ensureUUID e ArgId ident) pid))
               (products db pid)"
proof -
  let ?uuid = "ensureUUID e ArgId ident"
  let ?rows = "items_of db ?uuid"
  let ?O = "originalItemsMap ?rows"
  let ?N = "newItemsMap its"
  have O: "?O = map (\<lambda>r. (product_id r,
                          \<lparr>mapQuantity = num_or (quantity_col r) 0, mapId = id_col r\<rparr>)) ?rows"
    unfolding originalItemsMap_def using assms(3)
    by (intro new_Map_distinct) (simp add: comp_def)
  have N: "?N = map (\<lambda>item. (productId item,
                          \<lparr>mapQuantity = num_or (quantity item) 0, mapId = itemId item\<rparr>)) its"
    unfolding newItemsMap_def using assms(4)
    by (intro new_Map_distinct) (simp add: comp_def)
  have distO: "distinct (map fst ?O)"
    using assms(3) by (simp add: O comp_def)
  have oldq: "(case map_of ?O pid of Some oi \<Rightarrow> mapQuantity oi | None \<Rightarrow> 0)
                = originalQuantity db ?uuid pid"
    by (simp add: O map_of_rows originalQuantity_def num_or_def split: option.splits)
  have has: "Map_has ?N pid \<longleftrightarrow> find (\<lambda>item. productId item = pid) its \<noteq> None"
    by (simp add: N Map_has_def map_of_items)
  from updateOrder_success_loops[OF assms(1,2)]
  obtain row db2 db3 where
    l1: "restoreRemovedItems e ?N
           (db\<lparr>orders := (orders db)(?uuid \<mapsto> cleanedData e order row)\<rparr>) 0 ?O = (None, db2)"
    and l2: "reconcileItems e ?O db2 0 its = (None, db3)"
    and fin: "products db' = products db3"
    by blast
  define R where "R = (\<Sum>(k, oi)\<leftarrow>?O. if k = pid \<and> \<not> Map_has ?N k then mapQuantity oi else 0)"
  define D where "D = (\<Sum>item\<leftarrow>its. if productId item = pid then quantityDiff ?O item else 0)"
  from restoreRemovedItems_stock[OF l1, of pid]
  have s2: "products db2 pid = map_option (\<lambda>s. s + R) (products db pid)"
    by (simp add: R_def)
  from reconcileItems_stock[OF l2, of pid]
  have s3: "products db3 pid = map_option (\<lambda>s. s - D) (products db2 pid)"
    by (simp add: D_def)
  have R: "R = (if find (\<lambda>item. productId item = pid) its = None
                then originalQuantity db ?uuid pid else 0)"
    unfolding R_def sum_distinct_entries[OF distO, of pid "\<lambda>k. \<not> Map_has ?N k" mapQuantity]
    using oldq has by (auto split: option.splits)
  have D: "D = (case find (\<lambda>item. productId item = pid) its of
                  Some item \<Rightarrow> quantity item - originalQuantity db ?uuid pid
                | None \<Rightarrow> 0)"
    unfolding D_def sum_distinct_items[OF assms(4), of pid "quantityDiff ?O"]
    using oldq
    by (auto simp: quantityDiff_def Let_def num_or_def dest!: find_productId split: option.splits)
  have "R - D = - (newQuantity its pid - originalQuantity db ?uuid pid)"
    by (simp add: R D newQuantity_def split: option.splits)
  with s2 s3 fin show ?thesis
    by (cases "products db pid") (simp_all add: algebra_simps)
qed

text \<open>
  The scenario of the specification: the order of 3 units of P is edited to 5 units (and
  2 units of Q are added); the stock of P goes from 7 to 5, that of Q from 2 to 0.
\<close>

lemma updateOrder_stock_delta_example:
  "products shopAfterOrder pidP = Some 7 \<and> products shopAfterOrder pidQ = Some 2
   \<and> products (snd (updateOrder quiet shopAfterOrder oid1
                      (edit [line iid1 pidP 5, line iid2 pidQ 2] 350))) pidP = Some 5
   \<and> products (snd (updateOrder quiet shopAfterOrder oid1
                      (edit [line iid1 pidP 5, line iid2 pidQ 2] 350))) pidQ = Some 0"
proof -
  let ?its = "[line iid1 pidP 5, line iid2 pidQ 2]"
  let ?run = "updateOrder quiet shopAfterOrder oid1 (edit ?its 350)"
  have "\<not> isl (fst ?run)" by code_simp
  then obtain updatedOrder where "fst ?run = Inr updatedOrder"
    using not_isl_Inr by blast
  then have run: "?run = (Inr updatedOrder, snd ?run)"
    by (metis prod.collapse)
  have its: "itemsP (edit ?its 350) = Some ?its" by (simp add: edit_def)
  have uuid: "ensureUUID quiet ArgId oid1 = oid1" by code_simp
  have d1: "distinct (map product_id (items_of shopAfterOrder (ensureUUID quiet ArgId oid1)))"
    by code_simp
  have d2: "distinct (map productId ?its)" by code_simp
  have P: "products shopAfterOrder pidP = Some 7" and Q: "products shopAfterOrder pidQ = Some 2"
    by code_simp+
  have q: "newQuantity ?its pidP = 5" "originalQuantity shopAfterOrder oid1 pidP = 3"
    "newQuantity ?its pidQ = 2" "originalQuantity shopAfterOrder oid1 pidQ = 0"
    by code_simp+
  from updateOrder_stock_delta[OF run its d1 d2, of pidP]
       updateOrder_stock_delta[OF run its d1 d2, of pidQ] P Q q uuid
  show ?thesis by simp
qed

text \<open>
  C4 (on an edit from items A to items B each product's stock changes by
  \<open>-(newQty - oldQty)\<close>). The run below is an edit that the edit form allows: the order
  holds one line of 3 units of P, the stock of P is 7, and the request keeps that line
  and adds a second line of 2 units of P. The order then holds 5 units of P, so the
  stock should go down by 2, to 5. \<^verbatim>\<open>updateOrder\<close> looks the added line up in
  \<^verbatim>\<open>originalItems\<close> by its product, takes it for a change from 3 to 2 and adds one unit
  to the stock: 8.
\<close>

theorem updateOrder_second_line_of_same_product_raises_stock:
  "\<not> isl (fst (updateOrder quiet shopAfterOrder oid1
                 (edit [line iid1 pidP 3, line iid2 pidP 2] 250)))
   \<and> products shopAfterOrder pidP = Some 7
   \<and> map quantity_col (items_of shopAfterOrder oid1) = [3]
   \<and> map quantity_col
        (items_of (snd (updateOrder quiet shopAfterOrder oid1
                          (edit [line iid1 pidP 3, line iid2 pidP 2] 250))) oid1) = [3, 2]
   \<and> products (snd (updateOrder quiet shopAfterOrder oid1
                      (edit [line iid1 pidP 3, line iid2 pidP 2] 250))) pidP = Some 8"
  by code_simp

subsection \<open>The stored total\<close>















subsection \<open>Stock levels\<close>

text \<open>
  \<^verbatim>\<open>updateOrder\<close> reads the stock again before every single decrement and compares it
  with the difference it is about to subtract. So, whatever the request and whichever
  calls fail, it leaves no stock negative, provided no stored quantity is negative.
\<close>

lemma Map_set_subset: "set (Map_set m k v) \<subseteq> insert (k, v) (set m)"
  by (induction m) (auto split: if_splits)

lemma foldl_Map_set_subset:
  "set (foldl (\<lambda>m (k, v). Map_set m k v) acc es) \<subseteq> set acc \<union> set es"
proof (induction es arbitrary: acc)
  case Nil
  then show ?case by simp
next
  case (Cons entry es)
  obtain k v where entry: "entry = (k, v)" by (cases entry)
  from Cons.IH[of "Map_set acc k v"] Map_set_subset[of acc k v] entry
  show ?case by auto
qed

lemma new_Map_subset: "set (new_Map es) \<subseteq> set es"
  using foldl_Map_set_subset[of "[]" es] by (simp add: new_Map_def)

lemma originalItemsMap_nonnegative:
  assumes "\<forall>r\<in>set rows. 0 \<le> quantity_col r" and "(k, oi) \<in> set (originalItemsMap rows)"
  shows "0 \<le> mapQuantity oi"
  using assms new_Map_subset[of "map (\<lambda>r. (product_id r,
            \<lparr>mapQuantity = num_or (quantity_col r) 0, mapId = id_col r\<rparr>)) rows"]
  by (auto simp: originalItemsMap_def num_or_def)

lemma restoreRemovedItem_nonnegative:
  assumes "restoreRemovedItem e N db j (k, oi) = Inr db1" "stock_nonnegative db"
    "0 \<le> mapQuantity oi"
  shows "stock_nonnegative db1"
  using assms
  by (auto simp: restoreRemovedItem_def Let_def select_stock_def update_stock_def num_or_def
        stock_nonnegative_def split: if_splits option.splits)

lemma restoreRemovedItems_nonnegative:
  "restoreRemovedItems e N db j es = (r, db') \<Longrightarrow> stock_nonnegative db \<Longrightarrow>
     \<forall>(k, oi)\<in>set es. 0 \<le> mapQuantity oi \<Longrightarrow> stock_nonnegative db'"
proof (induction es arbitrary: db j)
  case Nil
  then show ?case by simp
next
  case (Cons entry es)
  obtain k oi where entry: "entry = (k, oi)" by (cases entry)
  show ?case
  proof (cases "restoreRemovedItem e N db j entry")
    case (Inl f)
    with Cons.prems show ?thesis by simp
  next
    case (Inr db1)
    with Cons.prems have rest: "restoreRemovedItems e N db1 (Suc j) es = (r, db')" by simp
    from Inr entry Cons.prems(2,3) have "stock_nonnegative db1"
      by (auto intro: restoreRemovedItem_nonnegative)
    from Cons.IH[OF rest this] Cons.prems(3) show ?thesis by simp
  qed
qed

lemma reconcileItem_nonnegative:
  assumes "reconcileItem e O' db i item = Inr db1" "stock_nonnegative db"
  shows "stock_nonnegative db1"
  unfolding stock_nonnegative_def
proof (intro allI impI)
  fix p s
  assume db1: "products db1 p = Some s"
  let ?d = "quantityDiff O' item"
  from assms(1) have checked: "0 < ?d \<longrightarrow>
      (\<exists>stock. products db (productId item) = Some stock \<and> ?d \<le> stock)"
    by (auto simp: reconcileItem_def checkIncrease_def Let_def select_stock_def
             split: if_splits option.splits)
  from reconcileItem_stock[OF assms(1), of p] db1
  obtain s0 where s0: "products db p = Some s0"
    and s: "s = s0 - (if productId item = p then ?d else 0)"
    by (cases "products db p") auto
  from assms(2) s0 have "0 \<le> s0" by (auto simp: stock_nonnegative_def)
  with checked s0 s show "0 \<le> s"
    by (cases "0 < ?d") (auto split: if_splits)
qed

lemma reconcileItems_nonnegative:
  "reconcileItems e O' db i its = (r, db') \<Longrightarrow> stock_nonnegative db \<Longrightarrow> stock_nonnegative db'"
proof (induction its arbitrary: db i)
  case Nil
  then show ?case by simp
next
  case (Cons item its)
  show ?case
  proof (cases "reconcileItem e O' db i item")
    case (Inl f)
    with Cons.prems show ?thesis by simp
  next
    case (Inr db1)
    with Cons.prems have rest: "reconcileItems e O' db1 (Suc i) its = (r, db')" by simp
    from Cons.IH[OF rest reconcileItem_nonnegative[OF Inr Cons.prems(2)]] show ?thesis .
  qed
qed

lemma stock_nonnegative_same:
  "products db' = products db \<Longrightarrow> stock_nonnegative db \<Longrightarrow> stock_nonnegative db'"
  by (simp add: stock_nonnegative_def)

lemma updateOrder_products_cases:
  "products (snd (updateOrder e db ident order)) = products db
   \<or> (\<exists>N db1 r2 db2. products db1 = products db
         \<and> restoreRemovedItems e N db1 0
              (originalItemsMap (items_of db (ensureUUID e ArgId ident))) = (r2, db2)
         \<and> (products (snd (updateOrder e db ident order)) = products db2
            \<or> (\<exists>its r3 db3.
                  reconcileItems e (originalItemsMap (items_of db (ensureUUID e ArgId ident)))
                    db2 0 its = (r3, db3)
                  \<and> products (snd (updateOrder e db ident order)) = products db3)))"
proof (cases "fails e FetchOriginalOrder \<or> orders db (ensureUUID e ArgId ident) = None
              \<or> fails e UpdateOrderRow \<or> itemsP order = None")
  case True
  then have "snd (updateOrder e db ident order) = db
             \<or> (\<exists>row. snd (updateOrder e db ident order)
                    = db\<lparr>orders := (orders db)(ensureUUID e ArgId ident
                                                  \<mapsto> cleanedData e order row)\<rparr>)"
    by (cases "orders db (ensureUUID e ArgId ident)")
       (auto simp: updateOrder_def isSupabaseConfigured_def Let_def)
  then show ?thesis by auto
next
  case False
  let ?uuid = "ensureUUID e ArgId ident"
  let ?O = "originalItemsMap (items_of db ?uuid)"
  from False obtain row its where row: "orders db ?uuid = Some row"
    and its: "itemsP order = Some its"
    and ok: "\<not> fails e FetchOriginalOrder" "\<not> fails e UpdateOrderRow"
    by auto
  let ?db1 = "db\<lparr>orders := (orders db)(?uuid \<mapsto> cleanedData e order row)\<rparr>"
  obtain r2 db2 where l1: "restoreRemovedItems e (newItemsMap its) ?db1 0 ?O = (r2, db2)"
    by (cases "restoreRemovedItems e (newItemsMap its) ?db1 0 ?O")
  obtain r3 db3 where l2: "reconcileItems e ?O db2 0 its = (r3, db3)"
    by (cases "reconcileItems e ?O db2 0 its")
  have "products (snd (updateOrder e db ident order)) = products db2
        \<or> products (snd (updateOrder e db ident order)) = products db3"
  proof (cases r2)
    case (Some f)
    with row its ok l1 show ?thesis
      by (simp add: updateOrder_def isSupabaseConfigured_def Let_def)
  next
    case None
    note r2 = this
    show ?thesis
    proof (cases r3)
      case (Some f)
      with r2 row its ok l1 l2 show ?thesis
        by (simp add: updateOrder_def isSupabaseConfigured_def Let_def)
    next
      case None
      with r2 row its ok l1 l2 show ?thesis
        by (simp add: updateOrder_def isSupabaseConfigured_def Let_def
              delete_items_unchecked_def)
    qed
  qed
  with l1 l2 show ?thesis
    by (intro disjI2 exI[of _ "newItemsMap its"] exI[of _ ?db1] exI[of _ r2] exI[of _ db2])
       auto
qed

lemma updateOrder_keeps_stock_nonnegative:
  assumes "stock_nonnegative db" and "\<forall>r\<in>set (order_items db). 0 \<le> quantity_col r"
  shows "stock_nonnegative (snd (updateOrder e db ident order))"
proof -
  let ?uuid = "ensureUUID e ArgId ident"
  let ?O = "originalItemsMap (items_of db ?uuid)"
  let ?db' = "snd (updateOrder e db ident order)"
  have "0 \<le> mapQuantity oi" if "(k, oi) \<in> set ?O" for k oi
  proof (rule originalItemsMap_nonnegative[OF _ that])
    show "\<forall>r\<in>set (items_of db ?uuid). 0 \<le> quantity_col r"
      using assms(2) by (simp add: items_of_def)
  qed
  then have O: "\<forall>(k, oi)\<in>set ?O. 0 \<le> mapQuantity oi"
    by blast
  from updateOrder_products_cases[of e db ident order] show ?thesis
  proof (elim disjE exE conjE)
    assume "products ?db' = products db"
    from stock_nonnegative_same[OF this assms(1)] show ?thesis .
  next
    fix N db1 r2 db2
    assume a: "products db1 = products db"
      "restoreRemovedItems e N db1 0 ?O = (r2, db2)" "products ?db' = products db2"
    from stock_nonnegative_same[OF a(1) assms(1)] have "stock_nonnegative db1" .
    from restoreRemovedItems_nonnegative[OF a(2) this O]
    have "stock_nonnegative db2" .
    from stock_nonnegative_same[OF a(3) this] show ?thesis .
  next
    fix N db1 r2 db2 its r3 db3
    assume a: "products db1 = products db"
      "restoreRemovedItems e N db1 0 ?O = (r2, db2)"
      "reconcileItems e ?O db2 0 its = (r3, db3)" "products ?db' = products db3"
    from stock_nonnegative_same[OF a(1) assms(1)] have "stock_nonnegative db1" .
    from restoreRemovedItems_nonnegative[OF a(2) this O]
    have "stock_nonnegative db2" .
    from reconcileItems_nonnegative[OF a(3) this]
    have "stock_nonnegative db3" .
    from stock_nonnegative_same[OF a(4) this] show ?thesis .
  qed
qed

text \<open>
  C1 (stock never negative, also when one create request has two line items with the
  same productId). The run below is the request with two lines of 3 units of product P
  against a stock of 5: \<^verbatim>\<open>createOrder\<close> compares each line with the stock in the table
  (5, both times), accepts the request and returns the order, and the two calls of
  \<^verbatim>\<open>decrease_stock\<close> leave the stock of P at \<open>-1\<close>.
\<close>

theorem createOrder_two_lines_same_product_stock_negative:
  "validateStock quiet shop 0 [line iid1 pidP 3, line iid2 pidP 3] = None
   \<and> \<not> isl (fst (createOrder quiet shop (request [line iid1 pidP 3, line iid2 pidP 3] 300)))
   \<and> products shop pidP = Some 5
   \<and> products (snd (createOrder quiet shop (request [line iid1 pidP 3, line iid2 pidP 3] 300)))
         pidP = Some (- 1)"
  by code_simp

end
